theory Spec2Isabelle
  imports Complex_Main "HOL-Library.Char_ord" "HOL-Library.List_Lexorder" "HOL-Library.Multiset"
begin

section \<open>Student record store: the model\<close>

text \<open>
  A shallow embedding of \<^verbatim>\<open>database.py\<close>, \<^verbatim>\<open>config.py\<close> and of the year check, the CSV
  import and the CSV export of \<^verbatim>\<open>student-gui.py\<close>.

  Conventions of the model.
  \<^item> A Python \<^verbatim>\<open>str\<close> is a \<open>string\<close>; one \<open>char\<close> is one code point below 256.
  \<^item> A finite Python \<^verbatim>\<open>float\<close> is a \<open>real\<close>: comparisons are exact, arithmetic and
    rounding are those of the reals. The store holds finite gpa values only.
  \<^item> Python integers are \<open>int\<close>; the 64-bit range of an SQLite INTEGER is not modelled.
  \<^item> The database file can always be opened, read and written: the only engine error
    that occurs is the violation of a constraint of the table.
  \<^item> A raised exception is a value \<open>Inl e\<close>; a returned value is \<open>Inr v\<close>.
\<close>

subsection \<open>Exceptions\<close>

text \<open>The message of a \<^verbatim>\<open>ValueError\<close> or \<^verbatim>\<open>RuntimeError\<close>, one constructor per
  \<^verbatim>\<open>raise\<close> statement of the source; \<open>Conversion\<close> is the message of a failed
  \<^verbatim>\<open>int(...)\<close> or \<^verbatim>\<open>float(...)\<close>.\<close>

datatype message =
    StudentIdEmpty | NameEmpty | DuplicateStudentId | EmptySearch | StudentNotFound
  | RecordNotFound | InvalidRecordId
  | ConnectionError | InsertError | UpdateError | DeleteError | SearchError
  | ReadError | StatisticsError
  | YearInvalidFormat | Conversion

text \<open>The subclasses of \<^verbatim>\<open>sqlite3.Error\<close> the handlers tell apart.\<close>

datatype sqlite_error = IntegrityError | OperationalError

datatype exn =
    ValueError message
  | RuntimeError message
  | TypeError
  | AttributeError
  | OverflowError
  | KeyError
  | SqliteError sqlite_error

subsection \<open>Python values\<close>

datatype pyfloat = Finite real | PosInf | NegInf | NaN

datatype pyval = PyNone | PyInt int | PyFloat pyfloat | PyStr string

text \<open>\<^verbatim>\<open>a < b\<close> on floats: false whenever one side is NaN.\<close>

fun py_lt :: "pyfloat \<Rightarrow> pyfloat \<Rightarrow> bool" where
  "py_lt (Finite x) (Finite y) = (x < y)"
| "py_lt NaN _ = False"
| "py_lt _ NaN = False"
| "py_lt _ NegInf = False"
| "py_lt PosInf _ = False"
| "py_lt NegInf _ = True"
| "py_lt _ PosInf = True"

subsection \<open>Strings: \<^verbatim>\<open>str.strip\<close>, \<^verbatim>\<open>int(str)\<close>, \<^verbatim>\<open>float(str)\<close>\<close>

text \<open>\<^verbatim>\<open>str.isspace\<close> on the code points below 256: TAB, LF, VT, FF, CR, the four
  separators 28 to 31, the space, NEL (133) and the no-break space (160).\<close>

definition is_space :: "char \<Rightarrow> bool" where
  "is_space c = ((of_char c :: nat) \<in> {9, 10, 11, 12, 13, 28, 29, 30, 31, 32, 133, 160})"

definition strip :: "string \<Rightarrow> string" where
  "strip s = rev (dropWhile is_space (rev (dropWhile is_space s)))"

text \<open>\<^verbatim>\<open>int(s)\<close> and \<^verbatim>\<open>float(s)\<close> drop the same surrounding characters, except
  the separators 28 to 31, which they reject.\<close>

definition is_num_space :: "char \<Rightarrow> bool" where
  "is_num_space c = ((of_char c :: nat) \<in> {9, 10, 11, 12, 13, 32, 133, 160})"

definition num_strip :: "string \<Rightarrow> string" where
  "num_strip s = rev (dropWhile is_num_space (rev (dropWhile is_num_space s)))"

text \<open>The condition \<^verbatim>\<open>not s or not s.strip()\<close> of the store's checks.\<close>

definition blank :: "string \<Rightarrow> bool" where
  "blank s = (s = [] \<or> strip s = [])"

definition is_digit :: "char \<Rightarrow> bool" where
  "is_digit c = (48 \<le> (of_char c :: nat) \<and> (of_char c :: nat) \<le> 57)"

definition digit_val :: "char \<Rightarrow> nat" where
  "digit_val c = of_char c - 48"

definition dec_value :: "string \<Rightarrow> nat" where
  "dec_value ds = foldl (\<lambda>a c. 10 * a + digit_val c) 0 ds"

text \<open>Python's \<^verbatim>\<open>digitpart\<close>: digits, with single underscores allowed between two
  digits. The result is the digits without the underscores.\<close>

fun digitpart :: "string \<Rightarrow> string option" where
  "digitpart [] = None"
| "digitpart [c] = (if is_digit c then Some [c] else None)"
| "digitpart (c # d # cs) =
     (if is_digit c
      then (if d = CHR ''_'' then map_option (Cons c) (digitpart cs)
            else map_option (Cons c) (digitpart (d # cs)))
      else None)"

text \<open>An optional sign in front of the rest: \<open>(negative, rest)\<close>.\<close>

fun split_sign :: "string \<Rightarrow> bool \<times> string" where
  "split_sign [] = (False, [])"
| "split_sign (c # cs) =
     (if c = CHR ''-'' then (True, cs)
      else if c = CHR ''+'' then (False, cs)
      else (False, c # cs))"

text \<open>\<^verbatim>\<open>int(s)\<close> for a string, base 10: surrounding whitespace is dropped, then an
  optional sign and a digitpart; anything else raises \<^verbatim>\<open>ValueError\<close>.\<close>

definition py_int_str :: "string \<Rightarrow> exn + int" where
  "py_int_str s =
     (case split_sign (num_strip s) of (neg, body) \<Rightarrow>
        (case digitpart body of
           None \<Rightarrow> Inl (ValueError Conversion)
         | Some ds \<Rightarrow> Inr (if neg then - int (dec_value ds) else int (dec_value ds))))"

text \<open>\<^verbatim>\<open>int(v)\<close>: a float is truncated towards zero.\<close>

fun py_int :: "pyval \<Rightarrow> exn + int" where
  "py_int PyNone = Inl TypeError"
| "py_int (PyInt n) = Inr n"
| "py_int (PyFloat (Finite x)) = Inr (if 0 \<le> x then \<lfloor>x\<rfloor> else \<lceil>x\<rceil>)"
| "py_int (PyFloat NaN) = Inl (ValueError Conversion)"
| "py_int (PyFloat _) = Inl OverflowError"
| "py_int (PyStr s) = py_int_str s"

definition lower :: "char \<Rightarrow> char" where
  "lower c = (if 65 \<le> (of_char c :: nat) \<and> (of_char c :: nat) \<le> 90
              then char_of ((of_char c :: nat) + 32) else c)"

text \<open>An empty string, or a digitpart.\<close>

definition opt_digitpart :: "string \<Rightarrow> string option" where
  "opt_digitpart s = (if s = [] then Some [] else digitpart s)"

text \<open>The mantissa of a decimal literal, \<^verbatim>\<open>D\<close>, \<^verbatim>\<open>D.\<close>, \<^verbatim>\<open>D.D\<close> or \<^verbatim>\<open>.D\<close>, as a real.\<close>

definition mantissa :: "string \<Rightarrow> real option" where
  "mantissa m =
     (let ip = takeWhile (\<lambda>c. c \<noteq> CHR ''.'') m;
          rest = dropWhile (\<lambda>c. c \<noteq> CHR ''.'') m
      in case rest of
           [] \<Rightarrow> map_option (\<lambda>ds. real (dec_value ds)) (digitpart ip)
         | _ # fp \<Rightarrow>
             (if ip = [] \<and> fp = [] then None
              else case (opt_digitpart ip, opt_digitpart fp) of
                     (Some ids, Some fds) \<Rightarrow>
                       Some (real (dec_value ids) + real (dec_value fds) / 10 ^ length fds)
                   | _ \<Rightarrow> None))"

text \<open>The exponent after \<^verbatim>\<open>e\<close> or \<^verbatim>\<open>E\<close>: an optional sign and a digitpart.\<close>

definition exponent :: "string \<Rightarrow> int option" where
  "exponent e =
     (case split_sign e of (neg, body) \<Rightarrow>
        map_option (\<lambda>ds. if neg then - int (dec_value ds) else int (dec_value ds))
          (digitpart body))"

definition is_e :: "char \<Rightarrow> bool" where
  "is_e c = (c = CHR ''e'' \<or> c = CHR ''E'')"

text \<open>An unsigned decimal literal, mantissa and optional exponent.\<close>

definition decimal :: "string \<Rightarrow> real option" where
  "decimal body =
     (let m = takeWhile (\<lambda>c. \<not> is_e c) body;
          rest = dropWhile (\<lambda>c. \<not> is_e c) body
      in case mantissa m of
           None \<Rightarrow> None
         | Some x \<Rightarrow>
             (case rest of
                [] \<Rightarrow> Some x
              | _ # e \<Rightarrow>
                  (case exponent e of
                     None \<Rightarrow> None
                   | Some k \<Rightarrow> Some (if 0 \<le> k then x * 10 ^ nat k else x / 10 ^ nat (- k)))))"

text \<open>\<^verbatim>\<open>float(s)\<close> for a string: surrounding whitespace is dropped; an optional sign;
  then \<^verbatim>\<open>inf\<close>, \<^verbatim>\<open>infinity\<close> or \<^verbatim>\<open>nan\<close> in any case, or a decimal literal.\<close>

definition py_float_str :: "string \<Rightarrow> exn + pyfloat" where
  "py_float_str s =
     (case split_sign (num_strip s) of (neg, body) \<Rightarrow>
        (if map lower body = ''inf'' \<or> map lower body = ''infinity''
         then Inr (if neg then NegInf else PosInf)
         else if map lower body = ''nan'' then Inr NaN
         else case decimal body of
                None \<Rightarrow> Inl (ValueError Conversion)
              | Some x \<Rightarrow> Inr (Finite (if neg then - x else x))))"

text \<open>\<^verbatim>\<open>float(v)\<close>. An integer of magnitude \<open>2^1024 - 2^970\<close> or more is beyond the
  largest float and raises \<^verbatim>\<open>OverflowError\<close>.\<close>

fun py_float :: "pyval \<Rightarrow> exn + pyfloat" where
  "py_float PyNone = Inl TypeError"
| "py_float (PyInt n) =
     (if \<bar>n\<bar> \<ge> 2 ^ 1024 - 2 ^ 970 then Inl OverflowError else Inr (Finite (real_of_int n)))"
| "py_float (PyFloat x) = Inr x"
| "py_float (PyStr s) = py_float_str s"

subsection \<open>\<^verbatim>\<open>config.py\<close>\<close>

definition PASS_FAIL_THRESHOLD :: real where
  "PASS_FAIL_THRESHOLD = 2.2"

definition MIN_GPA :: real where
  "MIN_GPA = 0.0"

definition MAX_GPA :: real where
  "MAX_GPA = 4.0"

definition CSV_COLUMNS :: "string list" where
  "CSV_COLUMNS = [''StudentID'', ''Name'', ''Age'', ''Email'', ''Department'', ''GPA'',
     ''GraduationYear'']"

subsection \<open>\<^verbatim>\<open>calculate_status\<close>\<close>

text \<open>The \<^verbatim>\<open>except (ValueError, TypeError)\<close> clause returns \<^verbatim>\<open>"FAIL"\<close>; any other
  exception of \<^verbatim>\<open>float(gpa)\<close> leaves the function.\<close>

definition calculate_status :: "pyval \<Rightarrow> exn + string" where
  "calculate_status gpa =
     (case py_float gpa of
        Inr gpa_val \<Rightarrow>
          Inr (if py_lt gpa_val (Finite PASS_FAIL_THRESHOLD) then ''FAIL'' else ''PASS'')
      | Inl (ValueError m) \<Rightarrow> Inr ''FAIL''
      | Inl TypeError \<Rightarrow> Inr ''FAIL''
      | Inl e \<Rightarrow> Inl e)"

subsection \<open>The table\<close>

text \<open>One row of the table \<^verbatim>\<open>student\<close> of \<^verbatim>\<open>init_database\<close>; \<open>row_id\<close> is its column
  \<^verbatim>\<open>id\<close>.\<close>

record student =
  row_id :: int
  student_id :: string
  name :: string
  age :: int
  email :: string
  department :: string
  gpa :: real
  graduation_year :: int
  status :: string

text \<open>The database: the rows in the order of their ids, and the largest id the table
  has handed out (\<^verbatim>\<open>AUTOINCREMENT\<close> never hands out an id twice).\<close>

record database =
  rows :: "student list"
  seq :: int

text \<open>\<^verbatim>\<open>CREATE TABLE IF NOT EXISTS\<close>: a file without the table (\<open>None\<close>) gets the empty
  table, an existing table is left as it is.\<close>

definition init_database :: "database option \<Rightarrow> database" where
  "init_database f = (case f of None \<Rightarrow> \<lparr>rows = [], seq = 0\<rparr> | Some db \<Rightarrow> db)"

text \<open>\<^verbatim>\<open>INSERT INTO student (...) VALUES (...)\<close>: the column \<^verbatim>\<open>student_id\<close> is
  \<^verbatim>\<open>UNIQUE\<close>, compared character by character.\<close>

definition sql_insert ::
  "string \<Rightarrow> string \<Rightarrow> int \<Rightarrow> string \<Rightarrow> string \<Rightarrow> real \<Rightarrow> int \<Rightarrow> string \<Rightarrow> database
     \<Rightarrow> sqlite_error + database" where
  "sql_insert sid nm ag em dep g yr st db =
     (if sid \<in> set (map student_id (rows db)) then Inl IntegrityError
      else Inr \<lparr>rows = rows db @
                  [\<lparr>row_id = seq db + 1, student_id = sid, name = nm, age = ag, email = em,
                    department = dep, gpa = g, graduation_year = yr, status = st\<rparr>],
                seq = seq db + 1\<rparr>)"

text \<open>\<^verbatim>\<open>UPDATE student SET ... WHERE id=?\<close>: the new database and \<^verbatim>\<open>rowcount\<close>. A row
  that would take the \<^verbatim>\<open>student_id\<close> of another row violates \<^verbatim>\<open>UNIQUE\<close>.\<close>

definition sql_update ::
  "int \<Rightarrow> string \<Rightarrow> string \<Rightarrow> int \<Rightarrow> string \<Rightarrow> string \<Rightarrow> real \<Rightarrow> int \<Rightarrow> string \<Rightarrow> database
     \<Rightarrow> sqlite_error + database \<times> nat" where
  "sql_update rid sid nm ag em dep g yr st db =
     (if rid \<notin> set (map row_id (rows db)) then Inr (db, 0)
      else if \<exists>r \<in> set (rows db). row_id r \<noteq> rid \<and> student_id r = sid
      then Inl IntegrityError
      else Inr (db\<lparr>rows :=
                    map (\<lambda>r. if row_id r = rid
                              then r\<lparr>student_id := sid, name := nm, age := ag, email := em,
                                     department := dep, gpa := g, graduation_year := yr,
                                     status := st\<rparr>
                              else r) (rows db)\<rparr>,
                length (filter (\<lambda>r. row_id r = rid) (rows db))))"

text \<open>\<^verbatim>\<open>DELETE FROM student WHERE id = ?\<close>: the new database and \<^verbatim>\<open>rowcount\<close>.\<close>

definition sql_delete :: "int \<Rightarrow> database \<Rightarrow> database \<times> nat" where
  "sql_delete rid db =
     (db\<lparr>rows := filter (\<lambda>r. row_id r \<noteq> rid) (rows db)\<rparr>,
      length (filter (\<lambda>r. row_id r = rid) (rows db)))"

subsection \<open>\<^verbatim>\<open>get_db_connection\<close>\<close>

text \<open>
  The body of a \<^verbatim>\<open>with get_db_connection(...) as conn\<close> block is a function from the
  database to its outcome and the database it has committed. An exception of the body is
  raised again inside the generator at its \<^verbatim>\<open>yield\<close>, which stands in the \<^verbatim>\<open>try\<close>: the
  clause \<^verbatim>\<open>except sqlite3.Error\<close> rolls back and raises \<^verbatim>\<open>RuntimeError\<close> in its place;
  every other exception passes, and the connection is closed without a commit.
\<close>

definition get_db_connection ::
  "(database \<Rightarrow> (exn + 'a) \<times> database) \<Rightarrow> database \<Rightarrow> (exn + 'a) \<times> database" where
  "get_db_connection body db =
     (case body db of
        (Inl (SqliteError e), _) \<Rightarrow> (Inl (RuntimeError ConnectionError), db)
      | (Inl e, _) \<Rightarrow> (Inl e, db)
      | (Inr v, db') \<Rightarrow> (Inr v, db'))"

subsection \<open>The operations of \<^verbatim>\<open>database.py\<close>\<close>

definition add_student_record ::
  "string \<Rightarrow> string \<Rightarrow> int \<Rightarrow> string \<Rightarrow> string \<Rightarrow> real \<Rightarrow> int \<Rightarrow> database
     \<Rightarrow> (exn + bool) \<times> database" where
  "add_student_record sid nm ag em dep g yr db =
     (if blank sid then (Inl (ValueError StudentIdEmpty), db)
      else if blank nm then (Inl (ValueError NameEmpty), db)
      else case calculate_status (PyFloat (Finite g)) of
             Inl e \<Rightarrow> (Inl e, db)
           | Inr st \<Rightarrow>
               (case get_db_connection
                       (\<lambda>d. case sql_insert sid nm ag em dep g yr st d of
                               Inl e \<Rightarrow> (Inl (SqliteError e), d)
                             | Inr d' \<Rightarrow> (Inr True, d')) db of
                  (Inl (SqliteError IntegrityError), d) \<Rightarrow> (Inl (ValueError DuplicateStudentId), d)
                | (Inl (SqliteError e), d) \<Rightarrow> (Inl (RuntimeError InsertError), d)
                | r \<Rightarrow> r))"

text \<open>\<^verbatim>\<open>ORDER BY name\<close>; rows of equal name stay in the order of their ids.\<close>

definition view_all_records :: "database \<Rightarrow> (exn + student list) \<times> database" where
  "view_all_records db =
     (case get_db_connection (\<lambda>d. (Inr (sort_key name (rows d)), d)) db of
        (Inl (SqliteError e), d) \<Rightarrow> (Inl (RuntimeError ReadError), d)
      | r \<Rightarrow> r)"

text \<open>\<^verbatim>\<open>fetchone()\<close> is the first row that matches, or \<^verbatim>\<open>None\<close>.\<close>

definition search_by_student_id :: "string \<Rightarrow> database \<Rightarrow> (exn + student) \<times> database" where
  "search_by_student_id sid db =
     (if blank sid then (Inl (ValueError EmptySearch), db)
      else case get_db_connection
                  (\<lambda>d. case find (\<lambda>r. student_id r = sid) (rows d) of
                          None \<Rightarrow> (Inl (ValueError StudentNotFound), d)
                        | Some result \<Rightarrow> (Inr result, d)) db of
             (Inl (SqliteError e), d) \<Rightarrow> (Inl (RuntimeError SearchError), d)
           | r \<Rightarrow> r)"

definition update_record ::
  "int \<Rightarrow> string \<Rightarrow> string \<Rightarrow> int \<Rightarrow> string \<Rightarrow> string \<Rightarrow> real \<Rightarrow> int \<Rightarrow> database
     \<Rightarrow> (exn + bool) \<times> database" where
  "update_record rid sid nm ag em dep g yr db =
     (if blank sid then (Inl (ValueError StudentIdEmpty), db)
      else if blank nm then (Inl (ValueError NameEmpty), db)
      else case calculate_status (PyFloat (Finite g)) of
             Inl e \<Rightarrow> (Inl e, db)
           | Inr st \<Rightarrow>
               (case get_db_connection
                       (\<lambda>d. case sql_update rid sid nm ag em dep g yr st d of
                               Inl e \<Rightarrow> (Inl (SqliteError e), d)
                             | Inr (d', rowcount) \<Rightarrow>
                                 if rowcount = 0 then (Inl (ValueError RecordNotFound), d)
                                 else (Inr True, d')) db of
                  (Inl (SqliteError e), d) \<Rightarrow> (Inl (RuntimeError UpdateError), d)
                | r \<Rightarrow> r))"

definition delete_record :: "int \<Rightarrow> database \<Rightarrow> (exn + bool) \<times> database" where
  "delete_record rid db =
     (if rid \<le> 0 then (Inl (ValueError InvalidRecordId), db)
      else case get_db_connection
                  (\<lambda>d. case sql_delete rid d of
                          (d', rowcount) \<Rightarrow>
                            if rowcount = 0 then (Inl (ValueError RecordNotFound), d)
                            else (Inr True, d')) db of
             (Inl (SqliteError e), d) \<Rightarrow> (Inl (RuntimeError DeleteError), d)
           | r \<Rightarrow> r)"

subsection \<open>\<^verbatim>\<open>get_statistics\<close>\<close>

record statistics =
  stat_total :: nat
  stat_pass :: nat
  stat_fail :: nat
  stat_avg_gpa :: real

text \<open>\<^verbatim>\<open>SELECT AVG(gpa)\<close>: \<^verbatim>\<open>NULL\<close> on the empty table.\<close>

definition sql_avg_gpa :: "database \<Rightarrow> real option" where
  "sql_avg_gpa db =
     (if rows db = [] then None
      else Some (sum_list (map gpa (rows db)) / real (length (rows db))))"

text \<open>\<^verbatim>\<open>round(x, 2)\<close>: to the nearest multiple of \<open>1/100\<close>, a tie to the even one.\<close>

definition py_round2 :: "real \<Rightarrow> real" where
  "py_round2 x =
     (let y = x * 100; f = \<lfloor>y\<rfloor>; d = y - of_int f
      in of_int (if d < 1/2 then f
                 else if 1/2 < d then f + 1
                 else if even f then f else f + 1) / 100)"

definition get_statistics :: "database \<Rightarrow> (exn + statistics) \<times> database" where
  "get_statistics db =
     (case get_db_connection
             (\<lambda>d. let total = length (rows d);
                       pass_count = length (filter (\<lambda>r. status r = ''PASS'') (rows d));
                       fail_count = length (filter (\<lambda>r. status r = ''FAIL'') (rows d));
                       avg_gpa = (case sql_avg_gpa d of
                                    None \<Rightarrow> 0.0
                                  | Some a \<Rightarrow> if a = 0 then 0.0 else a)
                   in (Inr \<lparr>stat_total = total, stat_pass = pass_count, stat_fail = fail_count,
                            stat_avg_gpa = py_round2 avg_gpa\<rparr>, d)) db of
        (Inl (SqliteError e), d) \<Rightarrow> (Inl (RuntimeError StatisticsError), d)
      | r \<Rightarrow> r)"

subsection \<open>Reachable databases\<close>

text \<open>The databases a run of the program can hold: the table is created empty and changes
  only through \<^verbatim>\<open>add_student_record\<close>, \<^verbatim>\<open>update_record\<close> and \<^verbatim>\<open>delete_record\<close>, whatever
  their arguments and whether they succeed.\<close>

inductive reachable :: "database \<Rightarrow> bool" where
  reach_init: "reachable (init_database None)"
| reach_add: "reachable db \<Longrightarrow> reachable (snd (add_student_record sid nm ag em dep g yr db))"
| reach_update:
    "reachable db \<Longrightarrow> reachable (snd (update_record rid sid nm ag em dep g yr db))"
| reach_delete: "reachable db \<Longrightarrow> reachable (snd (delete_record rid db))"

subsection \<open>The year check of the dialogs\<close>

text \<open>\<^verbatim>\<open>re.match(r'^\d{4}$', s)\<close>: four decimal digits, then the end of the string or one
  line feed before it.\<close>

definition year_pattern :: "string \<Rightarrow> bool" where
  "year_pattern s =
     (4 \<le> length s \<and> list_all is_digit (take 4 s) \<and>
      (drop 4 s = [] \<or> drop 4 s = [CHR 0x0A]))"

text \<open>The three lines that \<^verbatim>\<open>save\<close> (add dialog) and \<^verbatim>\<open>update\<close> (update dialog) share:
  the entry's content is stripped, matched, and converted.\<close>

definition validate_year_format :: "string \<Rightarrow> exn + int" where
  "validate_year_format entry =
     (let year_str = strip entry
      in if \<not> year_pattern year_str then Inl (ValueError YearInvalidFormat)
         else py_int_str year_str)"

subsection \<open>\<^verbatim>\<open>export_csv\<close>\<close>

text \<open>A value handed to \<^verbatim>\<open>csv.DictWriter\<close>; how the writer quotes and prints it is not
  modelled. A written file is the list of its rows.\<close>

datatype cell = CStr string | CInt int | CReal real

datatype export_dialog = NoData | ExportSuccess | ExportError exn

definition export_fieldnames :: "string list" where
  "export_fieldnames = [''StudentID'', ''Name'', ''Age'', ''Email'', ''Department'', ''GPA'',
     ''GraduationYear'', ''Status'']"

definition export_row :: "student \<Rightarrow> cell list" where
  "export_row record =
     [CStr (student_id record), CStr (name record), CInt (age record), CStr (email record),
      CStr (department record), CReal (gpa record), CInt (graduation_year record),
      CStr (status record)]"

text \<open>The dialog shown and the file written, \<open>None\<close> when no file is opened (a path has
  been chosen).\<close>

definition export_csv :: "database \<Rightarrow> export_dialog \<times> cell list list option" where
  "export_csv db =
     (case fst (view_all_records db) of
        Inl e \<Rightarrow> (ExportError e, None)
      | Inr records \<Rightarrow>
          if records = [] then (NoData, None)
          else (ExportSuccess, Some (map CStr export_fieldnames # map export_row records)))"

subsection \<open>\<^verbatim>\<open>import_csv\<close>\<close>

text \<open>A row of \<^verbatim>\<open>csv.DictReader\<close>: the fields under the header's names in order, and
  \<^verbatim>\<open>None\<close> under each name the row is too short for. A later binding of a name replaces
  an earlier one.\<close>

definition dict_row :: "string list \<Rightarrow> string list \<Rightarrow> (string \<times> string option) list" where
  "dict_row fieldnames row =
     zip fieldnames (map Some row) @ map (\<lambda>k. (k, None)) (drop (length row) fieldnames)"

text \<open>\<^verbatim>\<open>row.get(key, default)\<close>.\<close>

definition row_get :: "(string \<times> string option) list \<Rightarrow> string \<Rightarrow> pyval \<Rightarrow> pyval" where
  "row_get d key dflt =
     (case map_of (rev d) key of
        None \<Rightarrow> dflt
      | Some None \<Rightarrow> PyNone
      | Some (Some s) \<Rightarrow> PyStr s)"

text \<open>\<^verbatim>\<open>v.strip()\<close>: only a string has the method.\<close>

fun py_strip :: "pyval \<Rightarrow> exn + string" where
  "py_strip (PyStr s) = Inr (strip s)"
| "py_strip _ = Inl AttributeError"

text \<open>The call of \<^verbatim>\<open>add_student_record\<close> for one row; the arguments are evaluated from
  left to right and the first exception leaves the call. The result is \<open>None\<close> for a GPA
  cell that \<^verbatim>\<open>float\<close> reads as an infinity or NaN: the store of this model holds finite
  values only.\<close>

definition import_row ::
  "string list \<Rightarrow> string list \<Rightarrow> database \<Rightarrow> ((exn + bool) \<times> database) option" where
  "import_row fieldnames line db =
     (let row = dict_row fieldnames line in
      case py_strip (row_get row ''StudentID'' (PyStr [])) of
        Inl e \<Rightarrow> Some (Inl e, db)
      | Inr sid \<Rightarrow>
      (case py_strip (row_get row ''Name'' (PyStr [])) of
        Inl e \<Rightarrow> Some (Inl e, db)
      | Inr nm \<Rightarrow>
      (case py_int (row_get row ''Age'' (PyInt 0)) of
        Inl e \<Rightarrow> Some (Inl e, db)
      | Inr ag \<Rightarrow>
      (case py_strip (row_get row ''Email'' (PyStr [])) of
        Inl e \<Rightarrow> Some (Inl e, db)
      | Inr em \<Rightarrow>
      (case py_strip (row_get row ''Department'' (PyStr [])) of
        Inl e \<Rightarrow> Some (Inl e, db)
      | Inr dep \<Rightarrow>
      (case py_float (row_get row ''GPA'' (PyInt 0)) of
        Inl e \<Rightarrow> Some (Inl e, db)
      | Inr g \<Rightarrow>
      (case py_int (row_get row ''GraduationYear'' (PyInt 0)) of
        Inl e \<Rightarrow> Some (Inl e, db)
      | Inr yr \<Rightarrow>
      (case g of
        Finite x \<Rightarrow> Some (add_student_record sid nm ag em dep x yr db)
      | _ \<Rightarrow> None))))))))"

datatype import_dialog =
    EmptyCsv
  | ImportComplete nat nat
  | ImportError exn
  | NonFiniteGpa

text \<open>The loop over the data rows with its two counters. The handler of the loop catches
  \<^verbatim>\<open>ValueError\<close> and \<^verbatim>\<open>KeyError\<close>; any other exception leaves the loop for the outer
  handler, which shows the error.\<close>

fun import_loop ::
  "string list \<Rightarrow> string list list \<Rightarrow> nat \<Rightarrow> nat \<Rightarrow> database \<Rightarrow> import_dialog \<times> database" where
  "import_loop fieldnames [] imported skipped db = (ImportComplete imported skipped, db)"
| "import_loop fieldnames (line # rest) imported skipped db =
     (case import_row fieldnames line db of
        None \<Rightarrow> (NonFiniteGpa, db)
      | Some (Inr ok, db') \<Rightarrow> import_loop fieldnames rest (imported + 1) skipped db'
      | Some (Inl (ValueError m), db') \<Rightarrow> import_loop fieldnames rest imported (skipped + 1) db'
      | Some (Inl KeyError, db') \<Rightarrow> import_loop fieldnames rest imported (skipped + 1) db'
      | Some (Inl e, db') \<Rightarrow> (ImportError e, db'))"

text \<open>The file as \<^verbatim>\<open>csv.reader\<close> splits it into rows of fields (a path has been chosen).
  The first row is the header; the reader passes over empty rows.\<close>

definition import_csv :: "string list list \<Rightarrow> database \<Rightarrow> import_dialog \<times> database" where
  "import_csv file db =
     (case file of
        [] \<Rightarrow> (EmptyCsv, db)
      | fieldnames # data \<Rightarrow>
          if fieldnames = [] then (EmptyCsv, db)
          else import_loop fieldnames (filter (\<lambda>r. r \<noteq> []) data) 0 0 db)"

subsection \<open>Example databases\<close>

definition store0 :: database where
  "store0 = init_database None"

definition store1 :: database where
  "store1 = snd (add_student_record ''S1'' ''Ann'' 20 ''a@x.com'' ''Physics'' 2.0 2026 store0)"

definition store2 :: database where
  "store2 = snd (add_student_record ''S2'' ''Bo'' 22 ''b@x.com'' ''Chemistry'' 3.5 2025 store1)"


section \<open>Properties\<close>

subsection \<open>What the operations compute\<close>

lemma calculate_status_finite:
  "calculate_status (PyFloat (Finite g)) = Inr (if g < 2.2 then ''FAIL'' else ''PASS'')"
  by (simp add: calculate_status_def PASS_FAIL_THRESHOLD_def)

text \<open>An insert that violates \<^verbatim>\<open>UNIQUE\<close> raises \<^verbatim>\<open>sqlite3.IntegrityError\<close> inside the
  \<^verbatim>\<open>with\<close> block. \<^verbatim>\<open>get_db_connection\<close> catches it first and raises \<^verbatim>\<open>RuntimeError\<close>,
  so the clause \<^verbatim>\<open>except sqlite3.IntegrityError\<close> of \<^verbatim>\<open>add_student_record\<close> is never
  entered.\<close>

lemma add_student_record_eq:
  "add_student_record sid nm ag em dep g yr db =
     (if blank sid then (Inl (ValueError StudentIdEmpty), db)
      else if blank nm then (Inl (ValueError NameEmpty), db)
      else if sid \<in> set (map student_id (rows db)) then (Inl (RuntimeError ConnectionError), db)
      else (Inr True,
            \<lparr>rows = rows db @
                [\<lparr>row_id = seq db + 1, student_id = sid, name = nm, age = ag, email = em,
                    department = dep, gpa = g, graduation_year = yr,
                    status = (if g < 2.2 then ''FAIL'' else ''PASS'')\<rparr>],
             seq = seq db + 1\<rparr>))"
  by (simp add: add_student_record_def calculate_status_finite get_db_connection_def
      sql_insert_def)

lemma update_record_eq:
  "update_record rid sid nm ag em dep g yr db =
     (if blank sid then (Inl (ValueError StudentIdEmpty), db)
      else if blank nm then (Inl (ValueError NameEmpty), db)
      else if rid \<notin> set (map row_id (rows db)) then (Inl (ValueError RecordNotFound), db)
      else if \<exists>r \<in> set (rows db). row_id r \<noteq> rid \<and> student_id r = sid
      then (Inl (RuntimeError ConnectionError), db)
      else (Inr True,
            db\<lparr>rows :=
                 map (\<lambda>r. if row_id r = rid
                           then r\<lparr>student_id := sid, name := nm, age := ag, email := em,
                                  department := dep, gpa := g, graduation_year := yr,
                                  status := (if g < 2.2 then ''FAIL'' else ''PASS'')\<rparr>
                           else r) (rows db)\<rparr>))"
  apply (simp add: update_record_def calculate_status_finite get_db_connection_def
      sql_update_def filter_empty_conv)
  by auto

lemma delete_record_eq:
  "delete_record rid db =
     (if rid \<le> 0 then (Inl (ValueError InvalidRecordId), db)
      else if rid \<notin> set (map row_id (rows db)) then (Inl (ValueError RecordNotFound), db)
      else (Inr True, db\<lparr>rows := filter (\<lambda>r. row_id r \<noteq> rid) (rows db)\<rparr>))"
  apply (simp add: delete_record_def get_db_connection_def sql_delete_def filter_empty_conv)
  by auto

lemma search_by_student_id_eq:
  "search_by_student_id sid db =
     (if blank sid then (Inl (ValueError EmptySearch), db)
      else case find (\<lambda>r. student_id r = sid) (rows db) of
             None \<Rightarrow> (Inl (ValueError StudentNotFound), db)
           | Some r \<Rightarrow> (Inr r, db))"
  by (simp add: search_by_student_id_def get_db_connection_def split: option.splits)

subsection \<open>The example databases\<close>

lemma store0_eq: "store0 = \<lparr>rows = [], seq = 0\<rparr>"
  by (simp add: store0_def init_database_def)

lemma not_blank_examples:
  "\<not> blank ''S1''" "\<not> blank ''S2''" "\<not> blank ''Ann''" "\<not> blank ''Bo''" "\<not> blank ''Zed''"
  "\<not> blank '' S1 ''"
  by (simp_all add: blank_def strip_def is_space_def)

lemma store1_eq:
  "store1 = \<lparr>rows = [\<lparr>row_id = 1, student_id = ''S1'', name = ''Ann'', age = 20,
        email = ''a@x.com'', department = ''Physics'', gpa = 2,
        graduation_year = 2026, status = ''FAIL''\<rparr>], seq = 1\<rparr>"
  by (simp add: store1_def store0_eq add_student_record_eq not_blank_examples)

lemma store2_eq:
  "store2 = \<lparr>rows = [\<lparr>row_id = 1, student_id = ''S1'', name = ''Ann'', age = 20,
        email = ''a@x.com'', department = ''Physics'', gpa = 2,
        graduation_year = 2026, status = ''FAIL''\<rparr>,
     \<lparr>row_id = 2, student_id = ''S2'', name = ''Bo'', age = 22,
        email = ''b@x.com'', department = ''Chemistry'', gpa = 3.5,
        graduation_year = 2025, status = ''PASS''\<rparr>], seq = 2\<rparr>"
  by (simp add: store2_def store1_eq add_student_record_eq not_blank_examples)

lemma reachable_store0: "reachable store0"
  unfolding store0_def by (rule reach_init)

lemma reachable_store1: "reachable store1"
  unfolding store1_def by (rule reach_add [OF reachable_store0])

lemma reachable_store2: "reachable store2"
  unfolding store2_def by (rule reach_add [OF reachable_store1])

subsection \<open>The status invariant\<close>



subsection \<open>C1: the classification\<close>

text \<open>
  C1. Every input that \<^verbatim>\<open>float\<close> reads as a number \<open>g\<close> with \<open>2.2 \<le> g \<le> 4.0\<close> is
  classified \<^verbatim>\<open>"PASS"\<close>, every one with \<open>0.0 \<le> g < 2.2\<close> is classified \<^verbatim>\<open>"FAIL"\<close>, and
  every input that \<^verbatim>\<open>float\<close> cannot read as a number (it raises \<^verbatim>\<open>TypeError\<close> or
  \<^verbatim>\<open>ValueError\<close>) is classified \<^verbatim>\<open>"FAIL"\<close>: the function returns, it does not raise. A
  gpa that is a float is the case \<open>v = PyFloat (Finite g)\<close>.
\<close>

theorem calculate_status_classifies:
  "(py_float v = Inr (Finite g) \<and> 2.2 \<le> g \<and> g \<le> 4.0 \<longrightarrow> calculate_status v = Inr ''PASS'') \<and>
   (py_float v = Inr (Finite g) \<and> 0.0 \<le> g \<and> g < 2.2 \<longrightarrow> calculate_status v = Inr ''FAIL'') \<and>
   (py_float v = Inl TypeError \<or> (\<exists>m. py_float v = Inl (ValueError m))
      \<longrightarrow> calculate_status v = Inr ''FAIL'')"
  by (auto simp: calculate_status_def PASS_FAIL_THRESHOLD_def)

text \<open>C1 at the float \<open>3.0\<close>, the string \<^verbatim>\<open>"1.5"\<close>, \<^verbatim>\<open>None\<close> and the string \<^verbatim>\<open>"abc"\<close>.\<close>

theorem calculate_status_classifies_witness:
  "calculate_status (PyFloat (Finite 3)) = Inr ''PASS'' \<and>
   calculate_status (PyStr ''1.5'') = Inr ''FAIL'' \<and>
   calculate_status PyNone = Inr ''FAIL'' \<and>
   calculate_status (PyStr ''abc'') = Inr ''FAIL''"
proof -
  have a: "py_float (PyFloat (Finite 3)) = Inr (Finite 3) \<and> (2.2::real) \<le> 3 \<and> (3::real) \<le> 4.0"
    by simp
  have b: "py_float (PyStr ''1.5'') = Inr (Finite 1.5) \<and> (0.0::real) \<le> 1.5 \<and> (1.5::real) < 2.2"
    by code_simp
  have c: "py_float PyNone = Inl TypeError"
    by simp
  have "py_float (PyStr ''abc'') = Inl (ValueError Conversion)"
    by code_simp
  then have d: "\<exists>m. py_float (PyStr ''abc'') = Inl (ValueError m)"
    by blast
  show ?thesis
    using calculate_status_classifies [of "PyFloat (Finite 3)" 3]
      calculate_status_classifies [of "PyStr ''1.5''" "1.5"]
      calculate_status_classifies [of PyNone]
      calculate_status_classifies [of "PyStr ''abc''"] a b c d
    by blast
qed

subsection \<open>C2: the status is derived from the gpa\<close>



subsection \<open>C3: an update to the student id of another row\<close>




subsection \<open>C4: adding a student id that exists\<close>

text \<open>
  C4. In the database holding S1, \<^verbatim>\<open>add_student_record\<close> with the student id S1 leaves the
  database unchanged, but the exception is the \<^verbatim>\<open>RuntimeError\<close> of \<^verbatim>\<open>get_db_connection\<close>,
  not the \<^verbatim>\<open>ValueError\<close> "Duplicate Student ID" that the function's own handler would
  raise.
\<close>

theorem add_duplicate_storage_error:
  "map student_id (rows store1) = [''S1''] \<and>
   add_student_record ''S1'' ''Zed'' 30 ''z@x.com'' ''Biology'' 3.0 2027 store1 =
     (Inl (RuntimeError ConnectionError), store1)"
  by (simp add: store1_eq add_student_record_eq not_blank_examples)

text \<open>The same for every database and every student id it holds.\<close>

lemma add_duplicate_never_value_error:
  "\<not> blank sid \<Longrightarrow> \<not> blank nm \<Longrightarrow> sid \<in> set (map student_id (rows db)) \<Longrightarrow>
   add_student_record sid nm ag em dep g yr db = (Inl (RuntimeError ConnectionError), db)"
  by (simp add: add_student_record_eq)

subsection \<open>C5: an update of a record that does not exist\<close>



subsection \<open>C6: the statistics\<close>

lemma py_round2_zero: "py_round2 0 = 0"
  by (simp add: py_round2_def)

lemma get_statistics_eq:
  "get_statistics db =
     (Inr \<lparr>stat_total = length (rows db),
           stat_pass = length (filter (\<lambda>r. status r = ''PASS'') (rows db)),
           stat_fail = length (filter (\<lambda>r. status r = ''FAIL'') (rows db)),
           stat_avg_gpa =
             (if rows db = [] then 0
              else py_round2 (sum_list (map gpa (rows db)) / real (length (rows db))))\<rparr>,
      db)"
  by (simp add: get_statistics_def get_db_connection_def sql_avg_gpa_def py_round2_zero Let_def)






text \<open>The scenario of the specification: no record, then Ann, then Ann and Bo.\<close>

lemma statistics_examples:
  "fst (get_statistics store0) =
     Inr \<lparr>stat_total = 0, stat_pass = 0, stat_fail = 0, stat_avg_gpa = 0.0\<rparr>"
  "fst (get_statistics store1) =
     Inr \<lparr>stat_total = 1, stat_pass = 0, stat_fail = 1, stat_avg_gpa = 2.0\<rparr>"
  "fst (get_statistics store2) =
     Inr \<lparr>stat_total = 2, stat_pass = 1, stat_fail = 1, stat_avg_gpa = 2.75\<rparr>"
  by (simp_all add: get_statistics_eq store0_eq store1_eq store2_eq py_round2_def)

subsection \<open>C7: the year check\<close>














text \<open>The examples of the specification.\<close>

lemma year_examples:
  "validate_year_format ''2025'' = Inr 2025"
  "validate_year_format ''25'' = Inl (ValueError YearInvalidFormat)"
  "validate_year_format ''20255'' = Inl (ValueError YearInvalidFormat)"
  "validate_year_format ''20a5'' = Inl (ValueError YearInvalidFormat)"
  by code_simp+

subsection \<open>C8: the export\<close>

lemma view_all_records_eq: "view_all_records db = (Inr (sort_key name (rows db)), db)"
  by (simp add: view_all_records_def get_db_connection_def)

lemma export_csv_eq:
  "export_csv db =
     (if rows db = [] then (NoData, None)
      else (ExportSuccess,
            Some (map CStr export_fieldnames # map export_row (sort_key name (rows db)))))"
proof -
  have "sort_key name (rows db) = [] \<longleftrightarrow> rows db = []"
    by (metis length_0_conv length_sort)
  then show ?thesis
    by (simp add: export_csv_def view_all_records_eq)
qed

text \<open>
  The claim C8 as stated, that the header is written even for the empty store, fails: on
  the empty table the export shows the warning "No Data" and opens no file.
\<close>

theorem export_csv_counterexample:
  "rows store0 = [] \<and> export_csv store0 = (NoData, None)"
  by (simp add: export_csv_eq store0_eq)

text \<open>
  C8, amended. For every database with at least one row, the export writes the header row
  (StudentID, Name, Age, Email, Department, GPA, GraduationYear, Status) followed by one
  row for each existing record, in the order of the names; for the empty table it writes
  nothing, no header either.
\<close>

theorem export_csv_rows:
  "(rows db = [] \<longrightarrow> export_csv db = (NoData, None)) \<and>
   (rows db \<noteq> [] \<longrightarrow>
      (\<exists>body. export_csv db = (ExportSuccess, Some (map CStr export_fieldnames # body)) \<and>
         body = map export_row (sort_key name (rows db)) \<and>
         length body = length (rows db) \<and>
         mset body = image_mset export_row (mset (rows db)) \<and>
         sorted (map name (sort_key name (rows db)))))"
  by (simp add: export_csv_eq)

text \<open>C8, amended, at the database holding Ann and Bo.\<close>

theorem export_csv_rows_witness:
  "rows store2 \<noteq> [] \<and>
   (\<exists>body. export_csv store2 = (ExportSuccess, Some (map CStr export_fieldnames # body)) \<and>
      length body = 2)"
proof -
  have ne: "rows store2 \<noteq> []" and n: "length (rows store2) = 2"
    by (simp_all add: store2_eq)
  from export_csv_rows [of store2] ne obtain body where
    "export_csv store2 = (ExportSuccess, Some (map CStr export_fieldnames # body))"
    "length body = length (rows store2)"
    by blast
  with ne n show ?thesis
    by auto
qed

lemma export_example:
  "export_csv store2 =
    (ExportSuccess,
     Some [[CStr ''StudentID'', CStr ''Name'', CStr ''Age'', CStr ''Email'',
            CStr ''Department'', CStr ''GPA'', CStr ''GraduationYear'', CStr ''Status''],
           [CStr ''S1'', CStr ''Ann'', CInt 20, CStr ''a@x.com'', CStr ''Physics'',
            CReal 2, CInt 2026, CStr ''FAIL''],
           [CStr ''S2'', CStr ''Bo'', CInt 22, CStr ''b@x.com'',
            CStr ''Chemistry'', CReal 3.5, CInt 2025, CStr ''PASS'']])"
  by (simp add: export_csv_eq store2_eq export_fieldnames_def export_row_def)

subsection \<open>C9: the import\<close>

text \<open>
  C9. A data row with fewer fields than the header has \<^verbatim>\<open>None\<close> under \<^verbatim>\<open>Age\<close>;
  \<^verbatim>\<open>int(None)\<close> raises \<^verbatim>\<open>TypeError\<close>, which the handler of the loop does not catch: the
  import stops at that row, reports no counts, and the valid row after it is not imported.
\<close>

theorem import_short_row_aborts:
  "import_csv
     [CSV_COLUMNS,
      [''S1'', ''Ann''],
      [''S2'', ''Bo'', ''22'', ''b@x.com'', ''Chemistry'', ''3.5'', ''2025'']] store0
   = (ImportError TypeError, store0)"
  by code_simp

text \<open>A row whose age is not a number raises \<^verbatim>\<open>ValueError\<close>: it is skipped and counted,
  and the next row is imported.\<close>

lemma import_bad_age_skipped:
  "fst (import_csv
     [CSV_COLUMNS,
      [''S1'', ''Ann'', ''x'', ''a@x.com'', ''Physics'', ''2.0'', ''2026''],
      [''S2'', ''Bo'', ''22'', ''b@x.com'', ''Chemistry'', ''3.5'', ''2025'']] store0)
   = ImportComplete 1 1"
  by code_simp

text \<open>A row whose student id is already stored raises the \<^verbatim>\<open>RuntimeError\<close> of
  \<^verbatim>\<open>get_db_connection\<close> (see C4), which the handler of the loop does not catch either.\<close>

lemma import_duplicate_aborts:
  "import_csv
     [CSV_COLUMNS,
      [''S1'', ''Al'', ''21'', ''c@x.com'', ''Biology'', ''3.0'', ''2027''],
      [''S2'', ''Bo'', ''22'', ''b@x.com'', ''Chemistry'', ''3.5'', ''2025'']] store1
   = (ImportError (RuntimeError ConnectionError), store1)"
  by code_simp

subsection \<open>C10: the student id is stored as supplied\<close>









subsection \<open>Further properties: keys, deletion, import counts\<close>

lemma distinct_rekey:
  "distinct (map k xs) \<Longrightarrow> distinct (map i xs) \<Longrightarrow>
   \<forall>r \<in> set xs. i r \<noteq> rid \<longrightarrow> k r \<noteq> sid \<Longrightarrow>
   distinct (map (\<lambda>r. if i r = rid then sid else k r) xs)"
  by (induction xs) (auto simp: image_iff)

lemma reachable_keys:
  "reachable db \<Longrightarrow>
     distinct (map student_id (rows db)) \<and> distinct (map row_id (rows db)) \<and> 0 \<le> seq db \<and>
     (\<forall>r \<in> set (rows db). 0 < row_id r \<and> row_id r \<le> seq db \<and> \<not> blank (student_id r) \<and>
        \<not> blank (name r))"
proof (induction rule: reachable.induct)
  case reach_init
  then show ?case by (simp add: init_database_def)
next
  case (reach_add db sid nm ag em dep g yr)
  then show ?case
    by (auto simp: add_student_record_eq)
next
  case (reach_update db rid sid nm ag em dep g yr)
  show ?case
  proof (cases "fst (update_record rid sid nm ag em dep g yr db) = Inr True")
    case False
    then have "snd (update_record rid sid nm ag em dep g yr db) = db"
      unfolding update_record_eq by (auto split: if_splits)
    with reach_update.IH show ?thesis by simp
  next
    case True
    then have ok: "\<not> blank sid" "\<not> blank nm"
      "\<forall>r \<in> set (rows db). row_id r \<noteq> rid \<longrightarrow> student_id r \<noteq> sid"
      by (auto simp: update_record_eq split: if_splits)
    define f :: "student \<Rightarrow> student" where "f = (\<lambda>r. if row_id r = rid
        then r\<lparr>student_id := sid, name := nm, age := ag, email := em,
               department := dep, gpa := g, graduation_year := yr,
               status := (if g < 2.2 then ''FAIL'' else ''PASS'')\<rparr>
        else r)"
    have "\<not> (\<exists>r \<in> set (rows db). row_id r \<noteq> rid \<and> student_id r = sid)"
      using ok(3) by blast
    moreover have "rid \<in> set (map row_id (rows db))"
      using True by (auto simp: update_record_eq split: if_splits)
    ultimately
    have new: "snd (update_record rid sid nm ag em dep g yr db) = db\<lparr>rows := map f (rows db)\<rparr>"
      using ok(1,2) unfolding f_def update_record_eq by simp blast
    have ids: "map row_id (map f (rows db)) = map row_id (rows db)"
      by (simp add: f_def)
    have re: "map student_id (map f (rows db)) =
        map (\<lambda>r. if row_id r = rid then sid else student_id r) (rows db)"
      by (simp add: f_def)
    have "distinct (map (\<lambda>r. if row_id r = rid then sid else student_id r) (rows db))"
      using reach_update.IH ok(3) by (intro distinct_rekey) simp_all
    then have sids: "distinct (map student_id (map f (rows db)))"
      unfolding re .
    have each: "\<forall>r \<in> set (map f (rows db)). 0 < row_id r \<and> row_id r \<le> seq db \<and>
        \<not> blank (student_id r) \<and> \<not> blank (name r)"
      using reach_update.IH ok(1,2) by (auto simp: f_def)
    have ids': "distinct (map row_id (map f (rows db)))"
      unfolding ids using reach_update.IH by blast
    have sel: "rows (db\<lparr>rows := map f (rows db)\<rparr>) = map f (rows db)"
      "seq (db\<lparr>rows := map f (rows db)\<rparr>) = seq db"
      by simp_all
    show ?thesis
      unfolding new sel using ids' sids each reach_update.IH by blast
  qed
next
  case (reach_delete db rid)
  then show ?case
    by (auto simp: delete_record_eq distinct_map_filter)
qed

text \<open>
  X1. In every reachable database no two rows share a student id or an id, every id is
  positive and at most the largest id handed out, and no stored student id or name is blank.
\<close>

theorem keys_unique:
  "reachable db \<Longrightarrow>
     distinct (map student_id (rows db)) \<and> distinct (map row_id (rows db)) \<and>
     (\<forall>r \<in> set (rows db). 0 < row_id r \<and> row_id r \<le> seq db \<and> \<not> blank (student_id r) \<and>
        \<not> blank (name r))"
  using reachable_keys [of db] by blast

text \<open>X1 at the database holding Ann and Bo.\<close>

theorem keys_unique_witness:
  "reachable store2 \<and> map student_id (rows store2) = [''S1'', ''S2''] \<and>
   distinct (map student_id (rows store2)) \<and> distinct (map row_id (rows store2))"
proof -
  have "map student_id (rows store2) = [''S1'', ''S2'']"
    by (simp add: store2_eq)
  moreover note all = keys_unique [OF reachable_store2]
  have "distinct (map student_id (rows store2))"
    by (rule conjunct1 [OF all])
  moreover have "distinct (map row_id (rows store2))"
    by (rule conjunct1 [OF conjunct2 [OF all]])
  ultimately show ?thesis
    by (intro conjI reachable_store2)
qed

text \<open>
  X2. In a reachable database, deleting an existing row by its id succeeds, and the search
  for the student id of that row then fails with the \<^verbatim>\<open>ValueError\<close> "Student Not Found".
\<close>

theorem delete_then_search:
  "reachable db \<Longrightarrow> r \<in> set (rows db) \<Longrightarrow>
     fst (delete_record (row_id r) db) = Inr True \<and>
     fst (search_by_student_id (student_id r) (snd (delete_record (row_id r) db))) =
       Inl (ValueError StudentNotFound)"
proof -
  assume reach: "reachable db" and r: "r \<in> set (rows db)"
  note inv = reachable_keys [OF reach]
  from inv r have pos: "0 < row_id r" and nb: "\<not> blank (student_id r)"
    by auto
  have run: "delete_record (row_id r) db =
      (Inr True, db\<lparr>rows := filter (\<lambda>x. row_id x \<noteq> row_id r) (rows db)\<rparr>)"
    using pos r by (simp add: delete_record_eq)
  have "inj_on student_id (set (rows db))"
    using inv by (simp add: distinct_map)
  then have "\<forall>x \<in> set (rows db). student_id x = student_id r \<longrightarrow> x = r"
    using r by (auto dest: inj_onD)
  then have "find (\<lambda>x. student_id x = student_id r)
      (filter (\<lambda>x. row_id x \<noteq> row_id r) (rows db)) = None"
    by (auto simp: find_None_iff)
  then show ?thesis
    using nb by (simp add: run search_by_student_id_eq)
qed

text \<open>X2 at the row of Ann (id 1, student id S1) in the database holding Ann and Bo.\<close>

theorem delete_then_search_witness:
  "reachable store2 \<and> hd (rows store2) \<in> set (rows store2) \<and>
   row_id (hd (rows store2)) = 1 \<and> student_id (hd (rows store2)) = ''S1'' \<and>
   fst (delete_record 1 store2) = Inr True \<and>
   fst (search_by_student_id ''S1'' (snd (delete_record 1 store2))) =
     Inl (ValueError StudentNotFound)"
proof -
  have h: "hd (rows store2) \<in> set (rows store2)"
    and i: "row_id (hd (rows store2)) = 1" and s: "student_id (hd (rows store2)) = ''S1''"
    by (simp_all add: store2_eq)
  note all = delete_then_search [OF reachable_store2 h, unfolded i s]
  have "fst (delete_record 1 store2) = Inr True"
    by (rule conjunct1 [OF all])
  moreover have "fst (search_by_student_id ''S1'' (snd (delete_record 1 store2))) =
       Inl (ValueError StudentNotFound)"
    by (rule conjunct2 [OF all])
  ultimately show ?thesis
    by (intro conjI reachable_store2 h i s)
qed

lemma import_loop_counts:
  "import_loop h data i k db = (ImportComplete i' k', db') \<Longrightarrow> i' + k' = i + k + length data"
proof (induction data arbitrary: i k db)
  case Nil
  then show ?case by simp
next
  case (Cons line rest)
  show ?case
  proof (cases "import_row h line db")
    case None
    with Cons.prems show ?thesis by simp
  next
    case (Some out)
    obtain res d where out: "out = (res, d)" by (cases out)
    show ?thesis
    proof (cases res)
      case (Inr ok)
      with Cons.prems Some out have "import_loop h rest (i + 1) k d = (ImportComplete i' k', db')"
        by simp
      from Cons.IH [OF this] show ?thesis by simp
    next
      case (Inl e)
      show ?thesis
      proof (cases "(\<exists>m. e = ValueError m) \<or> e = KeyError")
        case True
        with Cons.prems Some out Inl
        have "import_loop h rest i (k + 1) d = (ImportComplete i' k', db')"
          by auto
        from Cons.IH [OF this] show ?thesis by simp
      next
        case False
        with Cons.prems Some out Inl show ?thesis
          by (cases e) auto
      qed
    qed
  qed
qed

text \<open>
  X3. Whenever the import reports its two counts, they add up to the number of data rows of
  the file (the rows after the header that are not empty).
\<close>

theorem import_counts_cover:
  "import_csv input db = (ImportComplete imported skipped, db') \<Longrightarrow>
     imported + skipped = length (filter (\<lambda>r. r \<noteq> []) (tl input))"
proof -
  assume a: "import_csv input db = (ImportComplete imported skipped, db')"
  then obtain h data where f: "input = h # data" and h: "h \<noteq> []"
    by (cases input) (auto simp: import_csv_def split: if_splits)
  with a have "import_loop h (filter (\<lambda>r. r \<noteq> []) data) 0 0 db =
      (ImportComplete imported skipped, db')"
    by (simp add: import_csv_def)
  from import_loop_counts [OF this] f show ?thesis
    by simp
qed

text \<open>X3 at a file of two data rows, the first with an age that is not a number.\<close>

theorem import_counts_cover_witness:
  "fst (import_csv
     [CSV_COLUMNS,
      [''S1'', ''Ann'', ''x'', ''a@x.com'', ''Physics'', ''2.0'', ''2026''],
      [''S2'', ''Bo'', ''22'', ''b@x.com'', ''Chemistry'', ''3.5'', ''2025'']] store0)
     = ImportComplete 1 1 \<and>
   (1::nat) + 1 = length (filter (\<lambda>r. r \<noteq> [])
     (tl [CSV_COLUMNS,
          [''S1'', ''Ann'', ''x'', ''a@x.com'', ''Physics'', ''2.0'', ''2026''],
          [''S2'', ''Bo'', ''22'', ''b@x.com'', ''Chemistry'', ''3.5'', ''2025'']]))"
proof -
  define input where "input =
     [CSV_COLUMNS,
      [''S1'', ''Ann'', ''x'', ''a@x.com'', ''Physics'', ''2.0'', ''2026''],
      [''S2'', ''Bo'', ''22'', ''b@x.com'', ''Chemistry'', ''3.5'', ''2025'']]"
  have e: "fst (import_csv input store0) = ImportComplete 1 1"
    unfolding input_def by (rule import_bad_age_skipped)
  then have "import_csv input store0 = (ImportComplete 1 1, snd (import_csv input store0))"
    by (metis prod.collapse)
  from import_counts_cover [OF this]
  have "(1::nat) + 1 = length (filter (\<lambda>r. r \<noteq> []) (tl input))" .
  with e show ?thesis
    unfolding input_def by (rule conjI)
qed

end
